theory Spec2Isabelle
  imports Complex_Main "HOL-Library.AList"
begin

section \<open>Python values and exceptions\<close>

text \<open>
  The values that flow through tool parameters, tool results, workflow variables and
  response bodies. A Python \<open>dict\<close> keeps insertion order, so it is an
  association list whose keys are kept distinct by \<open>AList.update\<close> (which overwrites
  in place or appends, as \<open>d[k] = v\<close> does). Floats are left out of the value type;
  strings are byte strings (ASCII texts are modelled exactly).
\<close>

datatype pyval =
    VNone
  | VBool bool
  | VInt int
  | VStr string
  | VList "pyval list"
  | VDict "(string \<times> pyval) list"

text \<open>
  The exception classes the modelled code raises or catches. All of them derive from
  Python's \<open>Exception\<close>; each carries the text that \<open>str(e)\<close> yields.
\<close>

datatype exn =
    ValueError string
  | TypeError string
  | KeyError string
  | AttributeError string
  | NameError string
  | SyntaxError string
  | JSONDecodeError string
  | RegexError string
  | RuntimeError string
  | RequestError string
  | HTTPStatusError string
  | OpenRouterError string
  | AuthenticationError string
  | RateLimitError string
  | ModelNotFoundError string
  | PyException string

fun exn_str :: "exn \<Rightarrow> string" where
  "exn_str (ValueError m) = m"
| "exn_str (TypeError m) = m"
| "exn_str (KeyError m) = m"
| "exn_str (AttributeError m) = m"
| "exn_str (NameError m) = m"
| "exn_str (SyntaxError m) = m"
| "exn_str (JSONDecodeError m) = m"
| "exn_str (RegexError m) = m"
| "exn_str (RuntimeError m) = m"
| "exn_str (RequestError m) = m"
| "exn_str (HTTPStatusError m) = m"
| "exn_str (OpenRouterError m) = m"
| "exn_str (AuthenticationError m) = m"
| "exn_str (RateLimitError m) = m"
| "exn_str (ModelNotFoundError m) = m"
| "exn_str (PyException m) = m"

text \<open>Truthiness of a value, as \<open>if v:\<close> and \<open>not v\<close> read it.\<close>

fun py_truthy :: "pyval \<Rightarrow> bool" where
  "py_truthy VNone = False"
| "py_truthy (VBool b) = b"
| "py_truthy (VInt i) = (i \<noteq> 0)"
| "py_truthy (VStr s) = (s \<noteq> [])"
| "py_truthy (VList xs) = (xs \<noteq> [])"
| "py_truthy (VDict kvs) = (kvs \<noteq> [])"

section \<open>Tools (tools/base.py)\<close>

datatype ToolCategory =
  FILE_OPERATIONS | WEB_TOOLS | GIT_TOOLS | CODE_TOOLS | SYSTEM_TOOLS | CUSTOM

record ToolParameter =
  p_name :: string
  p_type :: string
  p_required :: bool
  p_enum :: "string list option"
  p_pattern :: "string option"
  p_min_value :: "int option"
  p_max_value :: "int option"
  p_min_length :: "int option"
  p_max_length :: "int option"

record ToolResult =
  success :: bool
  result :: pyval
  error :: "string option"
  execution_time :: real

text \<open>
  A tool instance. \<open>get_parameters\<close> is the declared parameter list and \<open>body\<close> the
  abstract \<open>execute\<close> method: it returns a result or raises. A tool may keep state of its
  own between calls, so the body also receives the number of times it has been invoked
  before; \<open>calls\<close> counts the invocations of the body (the call counter a test spy would
  keep) and is touched by nothing else.
\<close>

record Tool =
  name :: string
  category :: ToolCategory
  get_parameters :: "ToolParameter list"
  enabled :: bool
  execution_count :: nat
  total_execution_time :: real
  error_count :: nat
  body :: "nat \<Rightarrow> (string \<times> pyval) list \<Rightarrow> exn + ToolResult"
  calls :: nat

definition execute :: "Tool \<Rightarrow> (string \<times> pyval) list \<Rightarrow> (exn + ToolResult) \<times> Tool" where
  "execute tool kwargs = (body tool (calls tool) kwargs, tool\<lparr>calls := Suc (calls tool)\<rparr>)"

subsection \<open>Parameter validation\<close>

text \<open>
  \<open>isinstance(value, int)\<close> holds for a \<open>bool\<close> as well, since \<open>bool\<close> is a subclass of
  \<open>int\<close>; a declared type outside the table is not checked.
\<close>

fun validate_type :: "pyval \<Rightarrow> string \<Rightarrow> bool" where
  "validate_type v expected_type =
     (if expected_type = ''string'' then (case v of VStr _ \<Rightarrow> True | _ \<Rightarrow> False)
      else if expected_type = ''integer'' \<or> expected_type = ''number''
        then (case v of VInt _ \<Rightarrow> True | VBool _ \<Rightarrow> True | _ \<Rightarrow> False)
      else if expected_type = ''boolean'' then (case v of VBool _ \<Rightarrow> True | _ \<Rightarrow> False)
      else if expected_type = ''array'' then (case v of VList _ \<Rightarrow> True | _ \<Rightarrow> False)
      else if expected_type = ''object'' then (case v of VDict _ \<Rightarrow> True | _ \<Rightarrow> False)
      else True)"

fun numeric_value :: "pyval \<Rightarrow> int option" where
  "numeric_value (VInt i) = Some i"
| "numeric_value (VBool b) = Some (if b then 1 else 0)"
| "numeric_value _ = None"

fun string_value :: "pyval \<Rightarrow> string option" where
  "string_value (VStr s) = Some s"
| "string_value _ = None"

text \<open>
  \<open>re.match\<close> belongs to Python's library; it is a parameter \<open>re_match pattern text\<close>
  that answers whether the text matches or raises \<open>re.error\<close> on a bad pattern.
\<close>

type_synonym regex_engine = "string \<Rightarrow> string \<Rightarrow> exn + bool"

definition validate_constraints ::
  "regex_engine \<Rightarrow> pyval \<Rightarrow> ToolParameter \<Rightarrow> exn + bool" where
  "validate_constraints re_match v param =
     (if (case p_enum param of None \<Rightarrow> False | Some es \<Rightarrow> es \<noteq> [] \<and>
            (case v of VStr s \<Rightarrow> s \<notin> set es | _ \<Rightarrow> True))
      then Inr False
      else
        (case (case (p_pattern param, string_value v) of
                 (Some pat, Some s) \<Rightarrow>
                   (if pat \<noteq> [] then re_match pat s else Inr True)
               | _ \<Rightarrow> Inr True) of
           Inl e \<Rightarrow> Inl e
         | Inr False \<Rightarrow> Inr False
         | Inr True \<Rightarrow>
             (if (case (p_min_value param, numeric_value v) of
                    (Some lo, Some x) \<Rightarrow> x < lo | _ \<Rightarrow> False) then Inr False
              else if (case (p_max_value param, numeric_value v) of
                    (Some hi, Some x) \<Rightarrow> x > hi | _ \<Rightarrow> False) then Inr False
              else if (case (p_min_length param, string_value v) of
                    (Some lo, Some s) \<Rightarrow> int (length s) < lo | _ \<Rightarrow> False) then Inr False
              else if (case (p_max_length param, string_value v) of
                    (Some hi, Some s) \<Rightarrow> int (length s) > hi | _ \<Rightarrow> False) then Inr False
              else Inr True)))"

text \<open>The second loop of \<open>validate_parameters\<close>, over the supplied arguments in order.\<close>

fun validate_supplied ::
  "regex_engine \<Rightarrow> (string \<rightharpoonup> ToolParameter) \<Rightarrow> (string \<times> pyval) list \<Rightarrow> exn + bool" where
  "validate_supplied re_match param_dict [] = Inr True"
| "validate_supplied re_match param_dict ((n, v) # kwargs) =
     (case param_dict n of
        None \<Rightarrow> validate_supplied re_match param_dict kwargs
      | Some param \<Rightarrow>
          if \<not> validate_type v (p_type param) then Inr False
          else (case validate_constraints re_match v param of
                  Inl e \<Rightarrow> Inl e
                | Inr False \<Rightarrow> Inr False
                | Inr True \<Rightarrow> validate_supplied re_match param_dict kwargs))"

definition validate_parameters ::
  "regex_engine \<Rightarrow> Tool \<Rightarrow> (string \<times> pyval) list \<Rightarrow> exn + bool" where
  "validate_parameters re_match tool kwargs =
     (let parameters = get_parameters tool;
          param_dict = map_of (rev (map (\<lambda>p. (p_name p, p)) parameters))
      in if list_ex (\<lambda>param. p_required param \<and> p_name param \<notin> fst ` set kwargs) parameters
         then Inr False
         else validate_supplied re_match param_dict kwargs)"

subsection \<open>The safe-execution wrapper\<close>

text \<open>
  \<open>safe_execute\<close> reads the clock on entry (\<open>t0\<close>) and once more on the path it takes
  (\<open>t1\<close>). \<open>safe_execute_try\<close> is the \<open>try\<close> block: it returns or raises, together
  with the tool as the block left it. \<open>safe_execute\<close> adds the \<open>except Exception\<close>
  handler.
\<close>

definition default_result :: ToolResult where
  "default_result = \<lparr>success = False, result = VNone, error = None, execution_time = 0\<rparr>"

definition safe_execute_try ::
  "regex_engine \<Rightarrow> Tool \<Rightarrow> (string \<times> pyval) list \<Rightarrow> real \<Rightarrow> real \<Rightarrow> (exn + ToolResult) \<times> Tool"
  where
  "safe_execute_try re_match tool kwargs t0 t1 =
     (case validate_parameters re_match tool kwargs of
        Inl e \<Rightarrow> (Inl e, tool)
      | Inr False \<Rightarrow>
          (Inr (default_result\<lparr>error := Some ''Parameter validation failed'',
                               execution_time := t1 - t0\<rparr>), tool)
      | Inr True \<Rightarrow>
          (case execute tool kwargs of
             (Inl e, tool1) \<Rightarrow> (Inl e, tool1)
           | (Inr res, tool1) \<Rightarrow>
               (Inr (res\<lparr>execution_time := t1 - t0\<rparr>),
                tool1\<lparr>execution_count := execution_count tool1 + 1,
                      total_execution_time := total_execution_time tool1 + (t1 - t0),
                      error_count := (if \<not> success res then error_count tool1 + 1
                                      else error_count tool1)\<rparr>)))"

definition safe_execute ::
  "regex_engine \<Rightarrow> Tool \<Rightarrow> (string \<times> pyval) list \<Rightarrow> real \<Rightarrow> real \<Rightarrow> (exn + ToolResult) \<times> Tool"
  where
  "safe_execute re_match tool kwargs t0 t1 =
     (case safe_execute_try re_match tool kwargs t0 t1 of
        (Inr res, tool1) \<Rightarrow> (Inr res, tool1)
      | (Inl e, tool1) \<Rightarrow>
          (Inr (default_result\<lparr>error := Some (''Tool execution failed: '' @ exn_str e),
                               execution_time := t1 - t0\<rparr>),
           tool1\<lparr>execution_count := execution_count tool1 + 1,
                 total_execution_time := total_execution_time tool1 + (t1 - t0),
                 error_count := error_count tool1 + 1\<rparr>))"

section \<open>The tool registry\<close>

record ToolRegistry =
  tools :: "(string \<times> Tool) list"
  categories :: "(ToolCategory \<times> string list) list"

definition empty_registry :: ToolRegistry where
  "empty_registry = \<lparr>tools = [], categories = []\<rparr>"

definition register_tool :: "ToolRegistry \<Rightarrow> Tool \<Rightarrow> ToolRegistry" where
  "register_tool reg tool =
     (let tools1 = AList.update (name tool) tool (tools reg);
          cats1 = (if map_of (categories reg) (category tool) = None
                   then AList.update (category tool) [] (categories reg)
                   else categories reg);
          names = (case map_of cats1 (category tool) of None \<Rightarrow> [] | Some ns \<Rightarrow> ns);
          cats2 = (if name tool \<notin> set names
                   then AList.update (category tool) (names @ [name tool]) cats1
                   else cats1)
      in \<lparr>tools = tools1, categories = cats2\<rparr>)"

definition unregister_tool :: "ToolRegistry \<Rightarrow> string \<Rightarrow> ToolRegistry" where
  "unregister_tool reg tool_name =
     (case map_of (tools reg) tool_name of
        None \<Rightarrow> reg
      | Some tool \<Rightarrow>
          (let tools1 = AList.delete tool_name (tools reg);
               cats1 = (case map_of (categories reg) (category tool) of
                          None \<Rightarrow> categories reg
                        | Some names \<Rightarrow>
                            if tool_name \<in> set names
                            then AList.update (category tool) (remove1 tool_name names)
                                   (categories reg)
                            else categories reg)
           in \<lparr>tools = tools1, categories = cats1\<rparr>))"

definition get_tool :: "ToolRegistry \<Rightarrow> string \<Rightarrow> Tool option" where
  "get_tool reg tool_name = map_of (tools reg) tool_name"

text \<open>
  \<open>execute_tool\<close>. The registry holds the tool object itself, so the counters that
  \<open>safe_execute\<close> updates are seen through the registry afterwards.
\<close>

definition execute_tool ::
  "regex_engine \<Rightarrow> ToolRegistry \<Rightarrow> string \<Rightarrow> (string \<times> pyval) list \<Rightarrow> real \<Rightarrow> real
     \<Rightarrow> (exn + ToolResult) \<times> ToolRegistry" where
  "execute_tool re_match reg tool_name kwargs t0 t1 =
     (case get_tool reg tool_name of
        None \<Rightarrow>
          (Inr (default_result\<lparr>error := Some (''Tool '' @ [CHR 0x27] @ tool_name @ [CHR 0x27]
                                               @ '' not found'')\<rparr>), reg)
      | Some tool \<Rightarrow>
          if \<not> enabled tool
          then (Inr (default_result\<lparr>error := Some (''Tool '' @ [CHR 0x27] @ tool_name
                                                    @ [CHR 0x27] @ '' is disabled'')\<rparr>), reg)
          else (case safe_execute re_match tool kwargs t0 t1 of
                  (r, tool1) \<Rightarrow> (r, reg\<lparr>tools := AList.update tool_name tool1 (tools reg)\<rparr>)))"

text \<open>
  The two halves of the registry invariant: every name listed in the category index is a key
  of the primary map, and every key of the primary map is listed in the category index.
\<close>

definition indexed_names :: "ToolRegistry \<Rightarrow> string list" where
  "indexed_names reg = concat (map snd (categories reg))"

definition index_in_tools :: "ToolRegistry \<Rightarrow> bool" where
  "index_in_tools reg = list_all (\<lambda>n. n \<in> fst ` set (tools reg)) (indexed_names reg)"

definition tools_in_index :: "ToolRegistry \<Rightarrow> bool" where
  "tools_in_index reg = list_all (\<lambda>n. n \<in> set (indexed_names reg)) (map fst (tools reg))"

definition registry_invariant :: "ToolRegistry \<Rightarrow> bool" where
  "registry_invariant reg = (index_in_tools reg \<and> tools_in_index reg)"

datatype registry_op = Register Tool | Unregister string

fun apply_ops :: "ToolRegistry \<Rightarrow> registry_op list \<Rightarrow> ToolRegistry" where
  "apply_ops reg [] = reg"
| "apply_ops reg (Register t # ops) = apply_ops (register_tool reg t) ops"
| "apply_ops reg (Unregister n # ops) = apply_ops (unregister_tool reg n) ops"

text \<open>A stub tool: succeeds with no payload.\<close>

definition stub_tool :: "string \<Rightarrow> ToolCategory \<Rightarrow> Tool" where
  "stub_tool n c =
     \<lparr>name = n, category = c, get_parameters = [], enabled = True, execution_count = 0,
      total_execution_time = 0, error_count = 0,
      body = (\<lambda>k kwargs. Inr \<lparr>success = True, result = VNone, error = None,
                               execution_time = 0\<rparr>),
      calls = 0\<rparr>"

section \<open>Stub tools and call sequences\<close>

text \<open>
  The stub "echo" tool: one required string parameter \<open>text\<close>, returned unchanged as the
  result payload.
\<close>

definition echo_tool :: Tool where
  "echo_tool =
     (stub_tool ''echo'' CUSTOM)
       \<lparr>get_parameters :=
          [\<lparr>p_name = ''text'', p_type = ''string'', p_required = True, p_enum = None,
            p_pattern = None, p_min_value = None, p_max_value = None, p_min_length = None,
            p_max_length = None\<rparr>],
        body := (\<lambda>k kwargs.
          case map_of kwargs ''text'' of
            Some v \<Rightarrow> Inr \<lparr>success = True, result = v, error = None, execution_time = 0\<rparr>
          | None \<Rightarrow> Inl (TypeError ''execute() missing 1 required positional argument''))\<rparr>"


definition failing_tool :: "string \<Rightarrow> Tool" where
  "failing_tool n =
     (stub_tool n CUSTOM)
       \<lparr>body := (\<lambda>k kwargs. Inr \<lparr>success = False, result = VNone, error = Some ''no luck'',
                                   execution_time = 0\<rparr>)\<rparr>"

text \<open>A regex engine that knows no pattern; the stub tools declare none.\<close>

definition no_patterns :: regex_engine where
  "no_patterns pat s = Inl (RegexError ''unsupported pattern'')"


text \<open>
  A sequence of calls to one tool's \<open>safe_execute\<close>: each call is its keyword arguments
  and the two clock readings. The results are collected in order.
\<close>

type_synonym tool_call = "(string \<times> pyval) list \<times> real \<times> real"

fun run_calls :: "regex_engine \<Rightarrow> Tool \<Rightarrow> tool_call list \<Rightarrow> (exn + ToolResult) list \<times> Tool" where
  "run_calls re_match tool [] = ([], tool)"
| "run_calls re_match tool ((kwargs, t0, t1) # cs) =
     (case safe_execute re_match tool kwargs t0 t1 of
        (r, tool1) \<Rightarrow>
          (case run_calls re_match tool1 cs of (rs, tool2) \<Rightarrow> (r # rs, tool2)))"

text \<open>
  A call is short-circuited when \<open>validate_parameters\<close> answers \<open>False\<close>: the wrapper
  returns before the body and before the counters. An outcome is a failure when it is an
  exception or a result with \<open>success = False\<close>.
\<close>

definition short_circuited :: "regex_engine \<Rightarrow> Tool \<Rightarrow> tool_call \<Rightarrow> bool" where
  "short_circuited re_match tool c = (validate_parameters re_match tool (fst c) = Inr False)"

definition failed :: "exn + ToolResult \<Rightarrow> bool" where
  "failed r = (case r of Inl e \<Rightarrow> True | Inr res \<Rightarrow> \<not> success res)"

section \<open>Python strings\<close>

text \<open>\<open>sub in s\<close> and \<open>s.replace(old, new)\<close> (all occurrences, left to right, not overlapping).\<close>

fun contains :: "string \<Rightarrow> string \<Rightarrow> bool" where
  "contains sub [] = (sub = [])"
| "contains sub (c # cs) = (take (length sub) (c # cs) = sub \<or> contains sub cs)"

fun replace :: "string \<Rightarrow> string \<Rightarrow> string \<Rightarrow> string" where
  "replace old new [] = (if old = [] then new else [])"
| "replace old new (c # cs) =
     (if old = [] then new @ c # replace old new cs
      else if take (length old) (c # cs) = old
        then new @ replace old new (drop (length old - 1) cs)
      else c # replace old new cs)"

fun join :: "string \<Rightarrow> string list \<Rightarrow> string" where
  "join sep [] = []"
| "join sep [x] = x"
| "join sep (x # y # ys) = x @ sep @ join sep (y # ys)"

text \<open>\<open>str\<close> of an integer: decimal digits, most significant first.\<close>

definition digit_char :: "nat \<Rightarrow> char" where
  "digit_char d = ''0123456789'' ! d"

function str_of_nat :: "nat \<Rightarrow> string" where
  "str_of_nat n = (if n < 10 then [digit_char n] else str_of_nat (n div 10) @ [digit_char (n mod 10)])"
  by pat_completeness auto
termination
  by (relation "measure id") auto

declare str_of_nat.simps [simp del]

definition str_of_int :: "int \<Rightarrow> string" where
  "str_of_int i = (if i < 0 then CHR ''-'' # str_of_nat (nat (- i)) else str_of_nat (nat i))"

text \<open>
  \<open>repr\<close> of a string: single quotes, unless the text holds a single quote and no double
  quote; backslash, the chosen quote and the control characters are escaped.
\<close>

definition hex_digit :: "nat \<Rightarrow> char" where
  "hex_digit d = ''0123456789abcdef'' ! d"

definition repr_char :: "char \<Rightarrow> char \<Rightarrow> string" where
  "repr_char q c =
     (if c = CHR 0x5C then [CHR 0x5C, CHR 0x5C]
      else if c = q then [CHR 0x5C, q]
      else if c = CHR 0x0A then [CHR 0x5C, CHR ''n'']
      else if c = CHR 0x0D then [CHR 0x5C, CHR ''r'']
      else if c = CHR 0x09 then [CHR 0x5C, CHR ''t'']
      else if (of_char c :: nat) < 32 \<or> (of_char c :: nat) = 127
        then [CHR 0x5C, CHR ''x'', hex_digit ((of_char c :: nat) div 16),
              hex_digit ((of_char c :: nat) mod 16)]
      else [c])"

definition repr_str :: "string \<Rightarrow> string" where
  "repr_str s =
     (let q = (if CHR 0x27 \<in> set s \<and> CHR 0x22 \<notin> set s then CHR 0x22 else CHR 0x27)
      in q # concat (map (repr_char q) s) @ [q])"

fun py_repr :: "pyval \<Rightarrow> string" where
  "py_repr VNone = ''None''"
| "py_repr (VBool b) = (if b then ''True'' else ''False'')"
| "py_repr (VInt i) = str_of_int i"
| "py_repr (VStr s) = repr_str s"
| "py_repr (VList xs) = ''['' @ join '', '' (map py_repr xs) @ '']''"
| "py_repr (VDict kvs) =
     ''{'' @ join '', '' (map (\<lambda>(k, v). repr_str k @ '': '' @ py_repr v) kvs) @ ''}''"

definition py_str :: "pyval \<Rightarrow> string" where
  "py_str v = (case v of VStr s \<Rightarrow> s | _ \<Rightarrow> py_repr v)"

fun is_dict :: "pyval \<Rightarrow> bool" where
  "is_dict (VDict kvs) = True"
| "is_dict _ = False"

text \<open>\<open>d.update(other)\<close>.\<close>

definition dict_update :: "(string \<times> pyval) list \<Rightarrow> (string \<times> pyval) list \<Rightarrow> (string \<times> pyval) list"
  where
  "dict_update d other = fold (\<lambda>(k, v). AList.update k v) other d"

section \<open>The workflow engine (workflows/workflow_engine.py)\<close>

datatype WorkflowStatus = WF_PENDING | WF_RUNNING | WF_COMPLETED | WF_FAILED | WF_CANCELLED

datatype StepStatus = PENDING | RUNNING | COMPLETED | FAILED | SKIPPED

record WorkflowStep =
  step_id :: string
  step_name :: string
  step_tool :: string
  parameters :: "(string \<times> pyval) list"
  condition :: "string option"
  retry_count :: int
  max_retries :: int
  on_failure :: string
  status :: StepStatus
  step_result :: "ToolResult option"
  step_error :: "string option"

record Workflow =
  wf_id :: string
  wf_name :: string
  steps :: "WorkflowStep list"
  variables :: "(string \<times> pyval) list"
  wf_status :: WorkflowStatus
  wf_error :: "string option"

subsection \<open>Variable substitution\<close>

text \<open>
  The two readings of \<open>datetime.now()\<close> that \<open>_substitute_variables\<close> formats: the ISO
  form for \<open>{{now}}\<close> and the compact form for \<open>{{timestamp}}\<close>.
\<close>

record clock =
  now_iso :: string
  now_compact :: string

definition placeholder :: "string \<Rightarrow> string" where
  "placeholder key = ''{{'' @ key @ ''}}''"

fun substitute_user :: "(string \<times> pyval) list \<Rightarrow> string \<Rightarrow> string" where
  "substitute_user [] obj = obj"
| "substitute_user ((key, v) # vs) obj =
     substitute_user vs
       (if contains (placeholder key) obj then replace (placeholder key) (py_str v) obj
        else obj)"

definition substitute_string :: "clock \<Rightarrow> (string \<times> pyval) list \<Rightarrow> string \<Rightarrow> string" where
  "substitute_string clk vars obj =
     (let obj1 = (if contains ''{{now}}'' obj then replace ''{{now}}'' (now_iso clk) obj
                  else obj);
          obj2 = (if contains ''{{timestamp}}'' obj1
                  then replace ''{{timestamp}}'' (now_compact clk) obj1 else obj1)
      in substitute_user vars obj2)"

fun substitute_variables :: "clock \<Rightarrow> (string \<times> pyval) list \<Rightarrow> pyval \<Rightarrow> pyval" where
  "substitute_variables clk vars (VStr s) = VStr (substitute_string clk vars s)"
| "substitute_variables clk vars (VDict kvs) =
     VDict (map (\<lambda>(k, v). (k, substitute_variables clk vars v)) kvs)"
| "substitute_variables clk vars (VList xs) = VList (map (substitute_variables clk vars) xs)"
| "substitute_variables clk vars v = v"

subsection \<open>Conditions\<close>

text \<open>
  \<open>_evaluate_condition\<close> replaces every variable's placeholder in the condition text and
  hands the text to Python's \<open>eval\<close>, which is a parameter here: it yields a value or
  raises. Any exception makes the condition \<open>True\<close>.
\<close>

type_synonym evaluator = "string \<Rightarrow> exn + pyval"

fun substitute_condition :: "(string \<times> pyval) list \<Rightarrow> string \<Rightarrow> string" where
  "substitute_condition [] cond = cond"
| "substitute_condition ((key, v) # vs) cond =
     substitute_condition vs (replace (placeholder key) (py_str v) cond)"

definition evaluate_condition :: "evaluator \<Rightarrow> string \<Rightarrow> (string \<times> pyval) list \<Rightarrow> pyval" where
  "evaluate_condition py_eval cond vars =
     (case py_eval (substitute_condition vars cond) of
        Inl e \<Rightarrow> VBool True
      | Inr v \<Rightarrow> v)"

subsection \<open>Executing one step\<close>

text \<open>
  \<open>_execute_step\<close> mutates the step, the shared variable bag and (through the tool's own
  state) the registry; the model returns all three. The tool is taken from the registry's
  map and its \<open>execute\<close> method is called with the substituted parameters.
\<close>

definition execute_step ::
  "clock \<Rightarrow> ToolRegistry \<Rightarrow> WorkflowStep \<Rightarrow> (string \<times> pyval) list
     \<Rightarrow> WorkflowStep \<times> (string \<times> pyval) list \<times> ToolRegistry" where
  "execute_step clk reg step vars =
     (let step1 = step\<lparr>status := RUNNING\<rparr>;
          params = map (\<lambda>(k, v). (k, substitute_variables clk vars v)) (parameters step)
      in case map_of (tools reg) (step_tool step) of
           None \<Rightarrow>
             (step1\<lparr>status := FAILED,
                    step_error := Some (''Tool '' @ [CHR 0x27] @ step_tool step @ [CHR 0x27]
                                         @ '' not found'')\<rparr>, vars, reg)
         | Some t \<Rightarrow>
             (case execute t params of
                (Inl e, t1) \<Rightarrow>
                  (step1\<lparr>status := FAILED, step_error := Some (exn_str e)\<rparr>, vars,
                   reg\<lparr>tools := AList.update (step_tool step) t1 (tools reg)\<rparr>)
              | (Inr res, t1) \<Rightarrow>
                  (if success res
                   then (step1\<lparr>step_result := Some res, status := COMPLETED\<rparr>,
                         (if py_truthy (result res) \<and> is_dict (result res)
                          then AList.update (step_id step @ ''_result'') (result res) vars
                          else vars),
                         reg\<lparr>tools := AList.update (step_tool step) t1 (tools reg)\<rparr>)
                   else (step1\<lparr>step_result := Some res, status := FAILED,
                                step_error := error res\<rparr>, vars,
                         reg\<lparr>tools := AList.update (step_tool step) t1 (tools reg)\<rparr>))))"

subsection \<open>The step loop\<close>

record run_state =
  rs_registry :: ToolRegistry
  rs_variables :: "(string \<times> pyval) list"
  rs_status :: WorkflowStatus
  rs_error :: "string option"

text \<open>
  The part of the loop body after the condition check: execute the step, then apply the
  step's failure policy. The result is the step, the state, and whether the loop breaks.
\<close>

definition execute_with_policy ::
  "clock \<Rightarrow> WorkflowStep \<Rightarrow> run_state \<Rightarrow> WorkflowStep \<times> run_state \<times> bool" where
  "execute_with_policy clk step st =
     (case execute_step clk (rs_registry st) step (rs_variables st) of
        (step1, vars1, reg1) \<Rightarrow>
          if status step1 = FAILED then
            (if on_failure step1 = ''stop''
             then (step1, st\<lparr>rs_registry := reg1, rs_variables := vars1,
                             rs_status := WF_FAILED, rs_error := step_error step1\<rparr>, True)
             else if on_failure step1 = ''retry'' \<and> retry_count step1 < max_retries step1
             then (case execute_step clk reg1
                          (step1\<lparr>retry_count := retry_count step1 + 1, status := PENDING\<rparr>)
                          vars1 of
                     (step2, vars2, reg2) \<Rightarrow>
                       (step2, st\<lparr>rs_registry := reg2, rs_variables := vars2\<rparr>, False))
             else (step1, st\<lparr>rs_registry := reg1, rs_variables := vars1\<rparr>, False))
          else (step1, st\<lparr>rs_registry := reg1, rs_variables := vars1\<rparr>, False))"

text \<open>One pass through the body of the \<open>for\<close> loop of \<open>execute_workflow\<close>.\<close>

definition loop_body ::
  "clock \<Rightarrow> evaluator \<Rightarrow> WorkflowStep \<Rightarrow> run_state \<Rightarrow> WorkflowStep \<times> run_state \<times> bool" where
  "loop_body clk py_eval step st =
     (if rs_status st = WF_CANCELLED then (step, st, True)
      else if (case condition step of
                 None \<Rightarrow> False
               | Some cond \<Rightarrow>
                   cond \<noteq> [] \<and> \<not> py_truthy (evaluate_condition py_eval cond (rs_variables st)))
        then (step\<lparr>status := SKIPPED\<rparr>, st, False)
      else execute_with_policy clk step st)"

fun run_steps ::
  "clock \<Rightarrow> evaluator \<Rightarrow> WorkflowStep list \<Rightarrow> run_state \<Rightarrow> WorkflowStep list \<times> run_state" where
  "run_steps clk py_eval [] st = ([], st)"
| "run_steps clk py_eval (step # rest) st =
     (case loop_body clk py_eval step st of
        (step1, st1, brk) \<Rightarrow>
          if brk then (step1 # rest, st1)
          else (case run_steps clk py_eval rest st1 of
                  (rest1, st2) \<Rightarrow> (step1 # rest1, st2)))"

text \<open>
  \<open>execute_workflow\<close>: mark the workflow running, merge the caller's variables, run the
  loop, and compute the final status. The registry is returned beside the workflow, since
  the tools' own state changes. The function's own \<open>except Exception\<close> handler has no
  branch here: the operations of its \<open>try\<close> block that can raise (the tool body, the
  evaluation of a condition) are caught where they are made, in \<open>_execute_step\<close> and
  \<open>_evaluate_condition\<close>. Timestamps are left out.
\<close>

definition execute_workflow ::
  "clock \<Rightarrow> evaluator \<Rightarrow> ToolRegistry \<Rightarrow> Workflow \<Rightarrow> (string \<times> pyval) list option
     \<Rightarrow> Workflow \<times> ToolRegistry" where
  "execute_workflow clk py_eval reg workflow vars_arg =
     (let vars0 = (case vars_arg of
                     None \<Rightarrow> variables workflow
                   | Some vs \<Rightarrow> if vs \<noteq> [] then dict_update (variables workflow) vs
                                else variables workflow);
          st0 = \<lparr>rs_registry = reg, rs_variables = vars0, rs_status = WF_RUNNING,
                 rs_error = wf_error workflow\<rparr>
      in case run_steps clk py_eval (steps workflow) st0 of
           (steps1, st1) \<Rightarrow>
             (let failed_steps = filter (\<lambda>s. status s = FAILED) steps1;
                  final =
                    (if rs_status st1 = WF_RUNNING
                     then (if failed_steps \<noteq> []
                           then (WF_FAILED,
                                 Some (''Failed steps: ''
                                       @ py_repr (VList (map (\<lambda>s. VStr (step_name s)) failed_steps))))
                           else (WF_COMPLETED, rs_error st1))
                     else (rs_status st1, rs_error st1))
              in (workflow\<lparr>steps := steps1, variables := rs_variables st1,
                           wf_status := fst final, wf_error := snd final\<rparr>,
                  rs_registry st1)))"

subsection \<open>Example workflows\<close>

definition new_step :: "string \<Rightarrow> string \<Rightarrow> (string \<times> pyval) list \<Rightarrow> WorkflowStep" where
  "new_step i t ps =
     \<lparr>step_id = i, step_name = i, step_tool = t, parameters = ps, condition = None,
      retry_count = 0, max_retries = 3, on_failure = ''stop'', status = PENDING,
      step_result = None, step_error = None\<rparr>"

definition new_workflow :: "WorkflowStep list \<Rightarrow> (string \<times> pyval) list \<Rightarrow> Workflow" where
  "new_workflow ss vs =
     \<lparr>wf_id = ''wf'', wf_name = ''wf'', steps = ss, variables = vs, wf_status = WF_PENDING,
      wf_error = None\<rparr>"

definition fixed_clock :: clock where
  "fixed_clock = \<lparr>now_iso = ''2024-01-01T00:00:00'', now_compact = ''20240101_000000''\<rparr>"

text \<open>
  A stand-in for \<open>eval\<close> that knows the two Boolean literals and raises \<open>NameError\<close> on
  any other text, as \<open>eval\<close> does on an undefined name.
\<close>

definition literal_eval :: evaluator where
  "literal_eval s =
     (if s = ''True'' then Inr (VBool True)
      else if s = ''False'' then Inr (VBool False)
      else Inl (NameError ''name is not defined''))"

definition echo_registry :: ToolRegistry where
  "echo_registry = register_tool empty_registry echo_tool"

definition hello_world_workflow :: Workflow where
  "hello_world_workflow =
     new_workflow
       [new_step ''s1'' ''echo'' [(''text'', VStr ''hello'')],
        new_step ''s2'' ''echo'' [(''text'', VStr ''{{s1_result}}-world'')]] []"

definition retry_workflow :: Workflow where
  "retry_workflow =
     new_workflow
       [(new_step ''s1'' ''flaky'' [])\<lparr>on_failure := ''retry'', max_retries := 2\<rparr>] []"

definition flaky_registry :: ToolRegistry where
  "flaky_registry = register_tool empty_registry (failing_tool ''flaky'')"

text \<open>A tool whose payload is a structured object.\<close>

definition dict_tool :: Tool where
  "dict_tool =
     (stub_tool ''answer'' CUSTOM)
       \<lparr>body := (\<lambda>k kwargs. Inr \<lparr>success = True, result = VDict [(''x'', VInt 42)],
                                   error = None, execution_time = 0\<rparr>)\<rparr>"



section \<open>The OpenRouter client (core/api.py)\<close>

subsection \<open>What the HTTP library delivers\<close>

text \<open>
  One attempt of \<open>client.get\<close> or \<open>client.post\<close> either raises \<open>httpx.RequestError\<close>
  (timeouts, connection errors: the network-level failures) or delivers a response with a
  status code; \<open>response.json()\<close> then yields the decoded body or raises. The remote side
  is a function from the attempt number to what that attempt delivers.
\<close>

datatype http_outcome =
    Response nat "exn + pyval"
  | NetworkFailure string

type_synonym server = "nat \<Rightarrow> http_outcome"

text \<open>
  \<open>response.raise_for_status()\<close> of the HTTP library: nothing happens for a 2xx status, any
  other status raises \<open>httpx.HTTPStatusError\<close>, which is not a \<open>httpx.RequestError\<close>. The
  message is abridged to the status code.
\<close>

definition raise_for_status :: "nat \<Rightarrow> exn option" where
  "raise_for_status code =
     (if 200 \<le> code \<and> code < 300 then None else Some (HTTPStatusError (str_of_nat code)))"

definition upper_char :: "char \<Rightarrow> char" where
  "upper_char c =
     (if (97::nat) \<le> of_char c \<and> (of_char c :: nat) \<le> 122 then char_of ((of_char c :: nat) - 32)
      else c)"

definition upper :: "string \<Rightarrow> string" where
  "upper s = map upper_char s"

definition startswith :: "string \<Rightarrow> string \<Rightarrow> bool" where
  "startswith s pre = (take (length pre) s = pre)"

subsection \<open>The request loop\<close>

datatype request_result = JsonBody pyval | StreamGenerator

text \<open>
  What one pass of the \<open>for attempt in range(max_retries + 1)\<close> loop decides: leave the
  function (returning or raising), or go to the next attempt, after an
  \<open>asyncio.sleep(delay)\<close> or without one.
\<close>

datatype attempt_step = Leave "exn + request_result" | NextAttempt "real option"

definition handle_response :: "int \<Rightarrow> real \<Rightarrow> http_outcome \<Rightarrow> nat \<Rightarrow> attempt_step" where
  "handle_response retry_limit base_delay outcome attempt =
     (case outcome of
        NetworkFailure msg \<Rightarrow>
          if int attempt < retry_limit then NextAttempt (Some (base_delay * 2 ^ attempt))
          else Leave (Inl (OpenRouterError (''Request failed: '' @ msg)))
      | Response code js \<Rightarrow>
          if code = 200 then
            (case js of Inl e \<Rightarrow> Leave (Inl e) | Inr v \<Rightarrow> Leave (Inr (JsonBody v)))
          else if code = 401 then Leave (Inl (AuthenticationError ''Invalid API key''))
          else if code = 429 then
            (if int attempt < retry_limit then NextAttempt (Some (base_delay * 2 ^ attempt))
             else Leave (Inl (RateLimitError ''Rate limit exceeded'')))
          else if code = 404
            then Leave (Inl (ModelNotFoundError ''Model not found or not available''))
          else (case raise_for_status code of
                  Some e \<Rightarrow> Leave (Inl e)
                | None \<Rightarrow> NextAttempt None))"

text \<open>Whether an attempt sends a request at all: \<open>GET\<close>, or \<open>POST\<close> without streaming.\<close>

definition sends_request :: "string \<Rightarrow> bool \<Rightarrow> bool" where
  "sends_request method stream =
     (upper method = ''GET'' \<or> (upper method = ''POST'' \<and> \<not> stream))"

definition try_attempt ::
  "int \<Rightarrow> real \<Rightarrow> string \<Rightarrow> bool \<Rightarrow> http_outcome \<Rightarrow> nat \<Rightarrow> attempt_step" where
  "try_attempt retry_limit base_delay method stream outcome attempt =
     (if upper method = ''GET'' then handle_response retry_limit base_delay outcome attempt
      else if upper method = ''POST'' then
        (if stream then Leave (Inr StreamGenerator)
         else handle_response retry_limit base_delay outcome attempt)
      else Leave (Inl (ValueError (''Unsupported HTTP method: '' @ method))))"

text \<open>
  The loop from a given attempt on. The result comes with the delays slept, in order, and
  the number of requests sent.
\<close>

function attempt_loop ::
  "int \<Rightarrow> real \<Rightarrow> string \<Rightarrow> bool \<Rightarrow> server \<Rightarrow> nat \<Rightarrow> (exn + request_result) \<times> real list \<times> nat"
  where
  "attempt_loop retry_limit base_delay method stream srv attempt =
     (if \<not> int attempt < retry_limit + 1
      then (Inl (OpenRouterError ''Max retries exceeded''), [], 0)
      else
        (case try_attempt retry_limit base_delay method stream (srv attempt) attempt of
           Leave r \<Rightarrow> (r, [], if sends_request method stream then 1 else 0)
         | NextAttempt d \<Rightarrow>
             (case attempt_loop retry_limit base_delay method stream srv (Suc attempt) of
                (r, delays, sent) \<Rightarrow>
                  (r, (case d of None \<Rightarrow> delays | Some x \<Rightarrow> x # delays), Suc sent))))"
  by pat_completeness auto
termination
  by (relation "measure (\<lambda>(retry_limit, base_delay, method, stream, srv, attempt).
                   nat (retry_limit + 1 - int attempt))") auto

definition make_request ::
  "int \<Rightarrow> real \<Rightarrow> string \<Rightarrow> bool \<Rightarrow> server \<Rightarrow> (exn + request_result) \<times> real list \<times> nat" where
  "make_request retry_limit base_delay method stream srv =
     attempt_loop retry_limit base_delay method stream srv 0"

subsection \<open>Chat completion\<close>










subsection \<open>Example servers\<close>

text \<open>A server that answers from a script and fails at the network level afterwards.\<close>

definition scripted :: "http_outcome list \<Rightarrow> server" where
  "scripted outcomes n =
     (if n < length outcomes then outcomes ! n else NetworkFailure ''connection refused'')"

definition status_only :: "nat \<Rightarrow> http_outcome" where
  "status_only code = Response code (Inr (VDict []))"


declare attempt_loop.simps [simp del]

text \<open>
  The outcomes the loop answers with another attempt after a delay: a network-level
  failure and a rate-limit response.
\<close>

definition transient :: "http_outcome \<Rightarrow> bool" where
  "transient outcome =
     (case outcome of NetworkFailure msg \<Rightarrow> True | Response code js \<Rightarrow> code = 429)"

definition backoff_delays :: "real \<Rightarrow> nat \<Rightarrow> real list" where
  "backoff_delays base_delay k = map (\<lambda>n. base_delay * 2 ^ n) [0..<k]"

section \<open>The tool-call emulation parser (core/ollama_client.py)\<close>

subsection \<open>Regular expression search\<close>

text \<open>
  \<open>_parse_tool_calls\<close> uses one pattern, made of literal characters and of \<open>.*\<close> under
  \<open>re.DOTALL\<close>. \<open>match_here\<close> is the backtracking matcher for such patterns at the start
  of a text: a \<open>.*\<close> first tries to take one more character (greedy) and only then gives
  way to the rest of the pattern; the answer is the length of the match. \<open>re_search\<close> tries
  the start positions from left to right and returns the matched text.
\<close>

datatype re_item = Lit char | AnyStar

fun match_here :: "re_item list \<Rightarrow> string \<Rightarrow> nat option" where
  "match_here [] s = Some 0"
| "match_here (Lit c # p) [] = None"
| "match_here (Lit c # p) (x # s) = (if x = c then map_option Suc (match_here p s) else None)"
| "match_here (AnyStar # p) [] = match_here p []"
| "match_here (AnyStar # p) (x # s) =
     (case match_here (AnyStar # p) s of
        Some n \<Rightarrow> Some (Suc n)
      | None \<Rightarrow> match_here p (x # s))"

fun re_search :: "re_item list \<Rightarrow> string \<Rightarrow> string option" where
  "re_search p [] = map_option (\<lambda>n. []) (match_here p [])"
| "re_search p (x # s) =
     (case match_here p (x # s) of
        Some n \<Rightarrow> Some (take n (x # s))
      | None \<Rightarrow> re_search p s)"

definition tool_calls_pattern :: "re_item list" where
  "tool_calls_pattern =
     Lit (CHR ''{'') # AnyStar
       # map Lit ([CHR 0x22] @ ''tool_calls'' @ [CHR 0x22]) @ [AnyStar, Lit (CHR ''}'')]"

subsection \<open>JSON documents\<close>

text \<open>
  What \<open>json.loads\<close> builds. A number with a fraction or an exponent is a float, kept as
  its text; an object is a dict, in which a repeated key keeps its first position and takes
  the last value.
\<close>

datatype json =
    JNull
  | JBool bool
  | JInt int
  | JFloat string
  | JStr string
  | JArr "json list"
  | JObj "(string \<times> json) list"

definition is_ws :: "char \<Rightarrow> bool" where
  "is_ws c = (c = CHR '' '' \<or> c = CHR 0x09 \<or> c = CHR 0x0A \<or> c = CHR 0x0D)"

definition skip_ws :: "string \<Rightarrow> string" where
  "skip_ws s = dropWhile is_ws s"

definition is_digit :: "char \<Rightarrow> bool" where
  "is_digit c = ((48::nat) \<le> of_char c \<and> (of_char c :: nat) \<le> 57)"

definition nat_of_digits :: "string \<Rightarrow> nat" where
  "nat_of_digits ds = foldl (\<lambda>a c. 10 * a + ((of_char c :: nat) - 48)) 0 ds"

definition hex_value :: "char \<Rightarrow> nat option" where
  "hex_value c =
     (let n = (of_char c :: nat)
      in if 48 \<le> n \<and> n \<le> 57 then Some (n - 48)
         else if 97 \<le> n \<and> n \<le> 102 then Some (n - 87)
         else if 65 \<le> n \<and> n \<le> 70 then Some (n - 55)
         else None)"

text \<open>
  The code point of a \<open>\\u\<close> escape as bytes (UTF-8, as strings are byte strings here);
  surrogate pairs are not joined.
\<close>

definition utf8_bytes :: "nat \<Rightarrow> string" where
  "utf8_bytes n =
     (if n < 128 then [char_of n]
      else if n < 2048 then [char_of (192 + n div 64), char_of (128 + n mod 64)]
      else [char_of (224 + n div 4096), char_of (128 + (n div 64) mod 64),
            char_of (128 + n mod 64)])"

definition unicode_escape :: "string \<Rightarrow> string option" where
  "unicode_escape hs =
     (case map hex_value hs of
        [Some a, Some b, Some c, Some d] \<Rightarrow> Some (utf8_bytes (((a * 16 + b) * 16 + c) * 16 + d))
      | _ \<Rightarrow> None)"

text \<open>The text of a string after its opening quote; the result is the text and the rest.\<close>

fun scan_string :: "string \<Rightarrow> string \<Rightarrow> (string \<times> string) option" where
  "scan_string acc [] = None"
| "scan_string acc [c] = (if c = CHR 0x22 then Some (acc, []) else None)"
| "scan_string acc (c # e # cs) =
     (if c = CHR 0x22 then Some (acc, e # cs)
      else if c = CHR 0x5C then
        (if e = CHR 0x22 \<or> e = CHR 0x5C \<or> e = CHR ''/'' then scan_string (acc @ [e]) cs
         else if e = CHR ''b'' then scan_string (acc @ [CHR 0x08]) cs
         else if e = CHR ''f'' then scan_string (acc @ [CHR 0x0C]) cs
         else if e = CHR ''n'' then scan_string (acc @ [CHR 0x0A]) cs
         else if e = CHR ''r'' then scan_string (acc @ [CHR 0x0D]) cs
         else if e = CHR ''t'' then scan_string (acc @ [CHR 0x09]) cs
         else if e = CHR ''u'' then
           (case unicode_escape (take 4 cs) of
              None \<Rightarrow> None
            | Some bs \<Rightarrow> scan_string (acc @ bs) (drop 4 cs))
         else None)
      else if (of_char c :: nat) < 32 then None
      else scan_string (acc @ [c]) (e # cs))"

text \<open>
  A number, after \<open>-?(0|[1-9][0-9]*)(\\.[0-9]+)?([eE][-+]?[0-9]+)?\<close>: the value and the
  rest of the text.
\<close>

definition scan_fraction :: "string \<Rightarrow> string \<times> string" where
  "scan_fraction s =
     (case s of
        c # r \<Rightarrow>
          if c = CHR ''.'' \<and> takeWhile is_digit r \<noteq> []
          then (c # takeWhile is_digit r, dropWhile is_digit r) else ([], s)
      | [] \<Rightarrow> ([], s))"

definition scan_exponent :: "string \<Rightarrow> string \<times> string" where
  "scan_exponent s =
     (case s of
        c # r \<Rightarrow>
          if c = CHR ''e'' \<or> c = CHR ''E'' then
            (let sign = (case r of d # r1 \<Rightarrow> if d = CHR ''+'' \<or> d = CHR ''-'' then [d] else []
                         | [] \<Rightarrow> []);
                 r2 = drop (length sign) r
             in if takeWhile is_digit r2 \<noteq> []
                then (c # sign @ takeWhile is_digit r2, dropWhile is_digit r2) else ([], s))
          else ([], s)
      | [] \<Rightarrow> ([], s))"

definition scan_number :: "string \<Rightarrow> (json \<times> string) option" where
  "scan_number s =
     (let sign = (case s of c # r \<Rightarrow> if c = CHR ''-'' then [c] else [] | [] \<Rightarrow> []);
          s1 = drop (length sign) s;
          ds = takeWhile is_digit s1;
          int_part = (if ds \<noteq> [] \<and> hd ds = CHR ''0'' then ''0'' else ds);
          s2 = drop (length int_part) s1;
          (frac, s3) = scan_fraction s2;
          (ex, s4) = scan_exponent s3
      in if int_part = [] then None
         else if frac = [] \<and> ex = []
           then Some (JInt (if sign = [] then int (nat_of_digits int_part)
                            else - int (nat_of_digits int_part)), s4)
         else Some (JFloat (sign @ int_part @ frac @ ex), s4))"

text \<open>
  The recursive-descent scanner. Its first argument bounds the number of nested calls;
  \<open>json_loads\<close> starts it with more than the length of the text. \<open>scan_elements\<close> and
  \<open>scan_members\<close> continue an array and an object after the opening bracket.
\<close>

fun scan_value :: "nat \<Rightarrow> string \<Rightarrow> (json \<times> string) option"
  and scan_elements :: "nat \<Rightarrow> json list \<Rightarrow> string \<Rightarrow> (json \<times> string) option"
  and scan_members :: "nat \<Rightarrow> (string \<times> json) list \<Rightarrow> string \<Rightarrow> (json \<times> string) option"
  where
  "scan_value 0 s = None"
| "scan_value (Suc n) s =
     (case s of
        [] \<Rightarrow> None
      | c # r \<Rightarrow>
          if c = CHR 0x22 then map_option (\<lambda>(t, r1). (JStr t, r1)) (scan_string [] r)
          else if c = CHR ''{'' then
            (case skip_ws r of
               [] \<Rightarrow> None
             | d # r1 \<Rightarrow> if d = CHR ''}'' then Some (JObj [], r1) else scan_members n [] (d # r1))
          else if c = CHR ''['' then
            (case skip_ws r of
               [] \<Rightarrow> None
             | d # r1 \<Rightarrow> if d = CHR '']'' then Some (JArr [], r1) else scan_elements n [] (d # r1))
          else if startswith s ''null'' then Some (JNull, drop 4 s)
          else if startswith s ''true'' then Some (JBool True, drop 4 s)
          else if startswith s ''false'' then Some (JBool False, drop 5 s)
          else if startswith s ''NaN'' then Some (JFloat ''NaN'', drop 3 s)
          else if startswith s ''Infinity'' then Some (JFloat ''Infinity'', drop 8 s)
          else if startswith s ''-Infinity'' then Some (JFloat ''-Infinity'', drop 9 s)
          else scan_number s)"
| "scan_elements 0 acc s = None"
| "scan_elements (Suc n) acc s =
     (case scan_value n s of
        None \<Rightarrow> None
      | Some (v, r) \<Rightarrow>
          (case skip_ws r of
             [] \<Rightarrow> None
           | d # r1 \<Rightarrow>
               if d = CHR '','' then scan_elements n (acc @ [v]) (skip_ws r1)
               else if d = CHR '']'' then Some (JArr (acc @ [v]), r1)
               else None))"
| "scan_members 0 acc s = None"
| "scan_members (Suc n) acc s =
     (case s of
        [] \<Rightarrow> None
      | q # r \<Rightarrow>
          if q \<noteq> CHR 0x22 then None
          else
            (case scan_string [] r of
               None \<Rightarrow> None
             | Some (k, r1) \<Rightarrow>
                 (case skip_ws r1 of
                    [] \<Rightarrow> None
                  | d # r2 \<Rightarrow>
                      if d \<noteq> CHR '':'' then None
                      else
                        (case scan_value n (skip_ws r2) of
                           None \<Rightarrow> None
                         | Some (v, r3) \<Rightarrow>
                             (case skip_ws r3 of
                                [] \<Rightarrow> None
                              | e # r4 \<Rightarrow>
                                  if e = CHR '','' then
                                    scan_members n (AList.update k v acc) (skip_ws r4)
                                  else if e = CHR ''}'' then Some (JObj (AList.update k v acc), r4)
                                  else None)))))"

definition json_loads :: "string \<Rightarrow> exn + json" where
  "json_loads s =
     (case scan_value (2 * length s + 2) (skip_ws s) of
        None \<Rightarrow> Inl (JSONDecodeError ''Expecting value'')
      | Some (v, r) \<Rightarrow> if skip_ws r = [] then Inr v else Inl (JSONDecodeError ''Extra data''))"

subsection \<open>Parsing tool calls out of a response\<close>

record formatted_call =
  call_id :: json
  call_type :: string
  fn_name :: json
  fn_arguments :: json

text \<open>What \<open>for call in tool_calls\<close> iterates over, or the \<open>TypeError\<close> it raises.\<close>

fun iterate :: "json \<Rightarrow> exn + json list" where
  "iterate (JArr xs) = Inr xs"
| "iterate (JObj kvs) = Inr (map (\<lambda>(k, v). JStr k) kvs)"
| "iterate (JStr s) = Inr (map (\<lambda>c. JStr [c]) s)"
| "iterate JNull = Inl (TypeError ([CHR 0x27] @ ''NoneType'' @ [CHR 0x27] @ '' object is not iterable''))"
| "iterate (JBool b) = Inl (TypeError ([CHR 0x27] @ ''bool'' @ [CHR 0x27] @ '' object is not iterable''))"
| "iterate (JInt i) = Inl (TypeError ([CHR 0x27] @ ''int'' @ [CHR 0x27] @ '' object is not iterable''))"
| "iterate (JFloat f) = Inl (TypeError ([CHR 0x27] @ ''float'' @ [CHR 0x27] @ '' object is not iterable''))"

text \<open>
  The loop over the entries. An entry that is a dict with a \<open>function\<close> key is formatted;
  \<open>.get\<close> on a \<open>function\<close> value that is not a dict raises \<open>AttributeError\<close>; any other
  entry is passed over.
\<close>

fun format_calls :: "formatted_call list \<Rightarrow> json list \<Rightarrow> exn + formatted_call list" where
  "format_calls formatted_calls [] = Inr formatted_calls"
| "format_calls formatted_calls (call # rest) =
     (case call of
        JObj kvs \<Rightarrow>
          (case map_of kvs ''function'' of
             None \<Rightarrow> format_calls formatted_calls rest
           | Some f \<Rightarrow>
               (case f of
                  JObj fkvs \<Rightarrow>
                    format_calls
                      (formatted_calls @
                         [\<lparr>call_id = (case map_of kvs ''id'' of
                                        None \<Rightarrow> JStr (''call_'' @ str_of_nat (length formatted_calls))
                                      | Some i \<Rightarrow> i),
                           call_type = ''function'',
                           fn_name = (case map_of fkvs ''name'' of None \<Rightarrow> JStr [] | Some n \<Rightarrow> n),
                           fn_arguments = (case map_of fkvs ''arguments'' of
                                             None \<Rightarrow> JStr ''{}'' | Some a \<Rightarrow> a)\<rparr>])
                      rest
                | _ \<Rightarrow> Inl (AttributeError ''object has no attribute get'')))
      | _ \<Rightarrow> format_calls formatted_calls rest)"

text \<open>
  The \<open>try\<close> block of \<open>_parse_tool_calls\<close>. The matched text starts with a brace, so a
  successful \<open>json.loads\<close> gives a dict; for the other kinds of value the membership test
  and the subscript behave as Python's do. The function's second parameter, the tool
  catalogue, is not used by the code and is left out.
\<close>

definition parse_tool_calls_try :: "string \<Rightarrow> exn + formatted_call list" where
  "parse_tool_calls_try response_content =
     (case re_search tool_calls_pattern response_content of
        None \<Rightarrow> Inr []
      | Some json_str \<Rightarrow>
          (case json_loads json_str of
             Inl e \<Rightarrow> Inl e
           | Inr parsed \<Rightarrow>
               (case parsed of
                  JObj kvs \<Rightarrow>
                    (case map_of kvs ''tool_calls'' of
                       None \<Rightarrow> Inr []
                     | Some tool_calls \<Rightarrow>
                         (case iterate tool_calls of
                            Inl e \<Rightarrow> Inl e
                          | Inr entries \<Rightarrow> format_calls [] entries))
                | JStr s \<Rightarrow>
                    if contains ''tool_calls'' s
                    then Inl (TypeError ''string indices must be integers'') else Inr []
                | JArr xs \<Rightarrow>
                    if JStr ''tool_calls'' \<in> set xs
                    then Inl (TypeError ''list indices must be integers or slices'') else Inr []
                | _ \<Rightarrow> Inl (TypeError ''argument is not iterable''))))"

text \<open>The handler: \<open>except (json.JSONDecodeError, KeyError, AttributeError)\<close>.\<close>

fun caught_by_parser :: "exn \<Rightarrow> bool" where
  "caught_by_parser (JSONDecodeError m) = True"
| "caught_by_parser (KeyError m) = True"
| "caught_by_parser (AttributeError m) = True"
| "caught_by_parser e = False"

definition parse_tool_calls :: "string \<Rightarrow> exn + formatted_call list" where
  "parse_tool_calls response_content =
     (case parse_tool_calls_try response_content of
        Inr cs \<Rightarrow> Inr cs
      | Inl e \<Rightarrow> if caught_by_parser e then Inr [] else Inl e)"

text \<open>
  The end of \<open>_handle_tool_calling_completion\<close>, from the response text on: the assistant
  message, or the exception that the function's own handler raises in place of any
  exception of its body.
\<close>

record assistant_message =
  msg_role :: string
  msg_content :: "string option"
  msg_tool_calls :: "formatted_call list option"

definition tool_calling_message :: "string \<Rightarrow> exn + assistant_message" where
  "tool_calling_message response_content =
     (case parse_tool_calls response_content of
        Inr cs \<Rightarrow>
          Inr \<lparr>msg_role = ''assistant'',
               msg_content = (if cs = [] then Some response_content else None),
               msg_tool_calls = (if cs \<noteq> [] then Some cs else None)\<rparr>
      | Inl e \<Rightarrow>
          Inl (PyException (''Ollama tool calling failed: ''
                 @ (if exn_str e \<noteq> [] then exn_str e else ''Unknown error in tool calling''))))"

section \<open>Properties of the safe-execution wrapper\<close>



lemma safe_execute_parameters:
  "get_parameters (snd (safe_execute re_match tool kwargs t0 t1)) = get_parameters tool"
  by (simp add: safe_execute_def safe_execute_try_def execute_def
      split: sum.splits bool.splits prod.splits)

lemma short_circuited_cong:
  "get_parameters tool1 = get_parameters tool \<Longrightarrow>
   short_circuited re_match tool1 c = short_circuited re_match tool c"
  by (simp add: short_circuited_def validate_parameters_def)

lemma safe_execute_execution_count:
  "execution_count (snd (safe_execute re_match tool kwargs t0 t1))
     = execution_count tool + (if short_circuited re_match tool (kwargs, t0, t1) then 0 else 1)"
  by (simp add: safe_execute_def safe_execute_try_def execute_def short_circuited_def
      split: sum.splits bool.splits prod.splits)

lemma safe_execute_error_count:
  "error_count (snd (safe_execute re_match tool kwargs t0 t1))
     = error_count tool
       + (if \<not> short_circuited re_match tool (kwargs, t0, t1)
             \<and> failed (fst (safe_execute re_match tool kwargs t0 t1)) then 1 else 0)"
  by (simp add: safe_execute_def safe_execute_try_def execute_def short_circuited_def
      failed_def default_result_def split: sum.splits bool.splits prod.splits)

lemma safe_execute_total_time:
  "total_execution_time (snd (safe_execute re_match tool kwargs t0 t1))
     = total_execution_time tool
       + (if short_circuited re_match tool (kwargs, t0, t1) then 0 else t1 - t0)"
  by (simp add: safe_execute_def safe_execute_try_def execute_def short_circuited_def
      split: sum.splits bool.splits prod.splits)

lemma run_calls_Cons:
  "run_calls re_match tool ((kwargs, t0, t1) # cs)
     = (fst (safe_execute re_match tool kwargs t0 t1)
          # fst (run_calls re_match (snd (safe_execute re_match tool kwargs t0 t1)) cs),
        snd (run_calls re_match (snd (safe_execute re_match tool kwargs t0 t1)) cs))"
  by (simp split: prod.splits)

lemma run_calls_execution_count:
  "execution_count (snd (run_calls re_match tool cs))
     = execution_count tool + length (filter (\<lambda>c. \<not> short_circuited re_match tool c) cs)"
proof (induction cs arbitrary: tool)
  case Nil
  then show ?case by simp
next
  case (Cons c cs)
  obtain kwargs t0 t1 where c: "c = (kwargs, t0, t1)" by (cases c) auto
  let ?tool1 = "snd (safe_execute re_match tool kwargs t0 t1)"
  have same: "\<And>d. short_circuited re_match ?tool1 d = short_circuited re_match tool d"
    by (rule short_circuited_cong) (rule safe_execute_parameters)
  show ?case
    using Cons.IH [of ?tool1] safe_execute_execution_count [of re_match tool kwargs t0 t1]
    by (simp add: c same run_calls_Cons del: run_calls.simps(2))
qed

lemma run_calls_error_count:
  "error_count (snd (run_calls re_match tool cs))
     = error_count tool
       + length (filter (\<lambda>(c, r). \<not> short_circuited re_match tool c \<and> failed r)
                   (zip cs (fst (run_calls re_match tool cs))))"
proof (induction cs arbitrary: tool)
  case Nil
  then show ?case by simp
next
  case (Cons c cs)
  obtain kwargs t0 t1 where c: "c = (kwargs, t0, t1)" by (cases c) auto
  let ?tool1 = "snd (safe_execute re_match tool kwargs t0 t1)"
  have same: "\<And>d. short_circuited re_match ?tool1 d = short_circuited re_match tool d"
    by (rule short_circuited_cong) (rule safe_execute_parameters)
  show ?case
    using Cons.IH [of ?tool1] safe_execute_error_count [of re_match tool kwargs t0 t1]
    by (simp add: c same run_calls_Cons del: run_calls.simps(2))
qed

lemma run_calls_total_time:
  "\<forall>c \<in> set cs. fst (snd c) \<le> snd (snd c) \<Longrightarrow>
   total_execution_time tool \<le> total_execution_time (snd (run_calls re_match tool cs))"
proof (induction cs arbitrary: tool)
  case Nil
  then show ?case by simp
next
  case (Cons c cs)
  obtain kwargs t0 t1 where c: "c = (kwargs, t0, t1)" by (cases c) auto
  let ?tool1 = "snd (safe_execute re_match tool kwargs t0 t1)"
  have le: "t0 \<le> t1" using Cons.prems by (simp add: c)
  have step: "total_execution_time tool \<le> total_execution_time ?tool1"
    using le by (simp add: safe_execute_total_time)
  have rest: "total_execution_time ?tool1
              \<le> total_execution_time (snd (run_calls re_match ?tool1 cs))"
    using Cons.IH [of ?tool1] Cons.prems by simp
  show ?case
    using step rest by (simp add: c run_calls_Cons del: run_calls.simps(2))
qed


lemma echo_calls_eval:
  "run_calls no_patterns echo_tool [([(''text'', VStr ''hi'')], 1, 3), ([], 3, 4)]
   = ([Inr \<lparr>success = True, result = VStr ''hi'', error = None, execution_time = 2\<rparr>,
       Inr \<lparr>success = False, result = VNone, error = Some ''Parameter validation failed'',
            execution_time = 1\<rparr>],
      echo_tool\<lparr>execution_count := 1, total_execution_time := 2, calls := 1\<rparr>)"
  by (simp add: echo_tool_def stub_tool_def safe_execute_def safe_execute_try_def execute_def
      validate_parameters_def validate_constraints_def default_result_def)

lemma echo_calls_validation:
  "\<not> short_circuited no_patterns echo_tool ([(''text'', VStr ''hi'')], 1, 3)"
  "short_circuited no_patterns echo_tool ([], 3, 4)"
  "execution_count echo_tool = 0" "error_count echo_tool = 0" "total_execution_time echo_tool = 0"
  by (simp_all add: short_circuited_def validate_parameters_def validate_constraints_def
      echo_tool_def stub_tool_def)

section \<open>Properties of the workflow engine\<close>

lemmas engine_defs =
  execute_workflow_def loop_body_def execute_with_policy_def execute_step_def execute_def
  substitute_string_def placeholder_def new_workflow_def new_step_def register_tool_def
  empty_registry_def stub_tool_def Let_def

lemma get_tool_update:
  "get_tool (reg\<lparr>tools := AList.update n t (tools reg)\<rparr>) n = Some t"
  by (simp add: get_tool_def update_conv')

lemma execute_step_invokes:
  assumes "get_tool reg (step_tool step) = Some t"
  shows "get_tool (snd (snd (execute_step clk reg step vars))) (step_tool step)
           = Some (t\<lparr>calls := Suc (calls t)\<rparr>)"
  using assms
  by (simp add: execute_step_def execute_def get_tool_def update_conv' Let_def
      split: sum.splits)










lemma echo_registry_eval:
  "get_tool echo_registry ''echo'' = Some echo_tool" "enabled echo_tool"
  "validate_parameters no_patterns echo_tool [(''text'', VInt 5)] = Inr False"
  "validate_parameters no_patterns echo_tool [(''text'', VStr ''hi'')] = Inr True"
  "step_tool (new_step ''s1'' ''echo'' [(''text'', VInt 5)]) = ''echo''"
  "body echo_tool 0 [(''text'', VStr ''hi'')]
     = Inr \<lparr>success = True, result = VStr ''hi'', error = None, execution_time = 0\<rparr>"
  by (simp_all add: echo_registry_def get_tool_def register_tool_def empty_registry_def
      echo_tool_def stub_tool_def validate_parameters_def validate_constraints_def
      new_step_def Let_def)

section \<open>Properties of the request loop\<close>

lemma try_attempt_sends:
  "sends_request method stream \<Longrightarrow>
   try_attempt retry_limit base_delay method stream outcome attempt
     = handle_response retry_limit base_delay outcome attempt"
  by (auto simp: sends_request_def try_attempt_def)

lemma handle_response_transient:
  "transient outcome \<Longrightarrow> int attempt < retry_limit \<Longrightarrow>
   handle_response retry_limit base_delay outcome attempt
     = NextAttempt (Some (base_delay * 2 ^ attempt))"
  by (auto simp: transient_def handle_response_def split: http_outcome.splits)

lemma attempt_loop_leave:
  assumes "sends_request method stream" and "int attempt \<le> retry_limit"
    and "handle_response retry_limit base_delay (srv attempt) attempt = Leave r"
  shows "attempt_loop retry_limit base_delay method stream srv attempt = (r, [], 1)"
  using assms
  by (subst attempt_loop.simps) (simp add: try_attempt_sends)

lemma attempt_loop_backoff:
  assumes "sends_request method stream" and "int attempt < retry_limit"
    and "transient (srv attempt)"
  shows "attempt_loop retry_limit base_delay method stream srv attempt
     = (fst (attempt_loop retry_limit base_delay method stream srv (Suc attempt)),
        base_delay * 2 ^ attempt
          # fst (snd (attempt_loop retry_limit base_delay method stream srv (Suc attempt))),
        Suc (snd (snd (attempt_loop retry_limit base_delay method stream srv (Suc attempt)))))"
  using assms
  by (subst attempt_loop.simps)
     (simp add: try_attempt_sends handle_response_transient split: prod.splits)

lemma backoff_run:
  assumes "sends_request method stream"
    and "\<forall>i. a \<le> i \<and> i < a + k \<longrightarrow> transient (srv i)"
    and "int (a + k) \<le> retry_limit"
  shows "attempt_loop retry_limit base_delay method stream srv a
     = (fst (attempt_loop retry_limit base_delay method stream srv (a + k)),
        map (\<lambda>n. base_delay * 2 ^ n) [a..<a + k]
          @ fst (snd (attempt_loop retry_limit base_delay method stream srv (a + k))),
        k + snd (snd (attempt_loop retry_limit base_delay method stream srv (a + k))))"
  using assms(2,3)
proof (induction k arbitrary: a)
  case 0
  then show ?case by simp
next
  case (Suc k)
  have t: "transient (srv a)" using Suc.prems(1) by simp
  have lt: "int a < retry_limit" using Suc.prems(2) by simp
  have rest: "\<forall>i. Suc a \<le> i \<and> i < Suc a + k \<longrightarrow> transient (srv i)"
    using Suc.prems(1) by simp
  have bound: "int (Suc a + k) \<le> retry_limit" using Suc.prems(2) by simp
  have up: "[a..<Suc (a + k)] = a # [Suc a..<Suc (a + k)]"
    by (rule upt_conv_Cons) simp
  have first: "attempt_loop retry_limit base_delay method stream srv a
     = (fst (attempt_loop retry_limit base_delay method stream srv (Suc a)),
        base_delay * 2 ^ a
          # fst (snd (attempt_loop retry_limit base_delay method stream srv (Suc a))),
        Suc (snd (snd (attempt_loop retry_limit base_delay method stream srv (Suc a)))))"
    using assms(1) lt t by (rule attempt_loop_backoff)
  show ?case
    using first Suc.IH [OF rest bound] by (simp add: up del: upt_Suc)
qed

lemma make_request_after_backoff:
  assumes "sends_request method stream"
    and "\<forall>i < k. transient (srv i)"
    and "int k \<le> retry_limit"
    and "handle_response retry_limit base_delay (srv k) k = Leave r"
  shows "make_request retry_limit base_delay method stream srv
           = (r, backoff_delays base_delay k, Suc k)"
proof -
  have run: "attempt_loop retry_limit base_delay method stream srv 0
     = (fst (attempt_loop retry_limit base_delay method stream srv (0 + k)),
        map (\<lambda>n. base_delay * 2 ^ n) [0..<0 + k]
          @ fst (snd (attempt_loop retry_limit base_delay method stream srv (0 + k))),
        k + snd (snd (attempt_loop retry_limit base_delay method stream srv (0 + k))))"
    by (rule backoff_run) (use assms in auto)
  have last: "attempt_loop retry_limit base_delay method stream srv k = (r, [], 1)"
    by (rule attempt_loop_leave) (use assms in auto)
  show ?thesis
    using run by (simp add: make_request_def last backoff_delays_def)
qed

lemma upper_eval: "upper ''POST'' = ''POST''" "upper ''GET'' = ''GET''"
  by (simp_all add: upper_def upper_char_def)

lemma sends_post: "sends_request ''POST'' False"
  by (simp add: sends_request_def upper_eval)



section \<open>What leaves the public entry points\<close>




section \<open>Which callers go through the safe-execution wrapper\<close>

text \<open>
  C1, as stated: every tool invocation, also those of the workflow engine, goes through
  the safe-execution wrapper, so that parameters are validated before the body runs and
  the counters are updated afterwards. The workflow engine calls the tool's \<open>execute\<close>
  method itself: a step that passes an integer where the echo tool declares a string, which
  validation rejects, completes with the body run once and every counter still at zero.
\<close>

theorem workflow_step_bypasses_wrapper:
  "validate_parameters no_patterns echo_tool [(''text'', VInt 5)] = Inr False
   \<and> status (fst (execute_step fixed_clock echo_registry
                   (new_step ''s1'' ''echo'' [(''text'', VInt 5)]) [])) = COMPLETED
   \<and> map (\<lambda>(n, t). (calls t, execution_count t, error_count t, total_execution_time t))
       (tools (snd (snd (execute_step fixed_clock echo_registry
                           (new_step ''s1'' ''echo'' [(''text'', VInt 5)]) []))))
     = [(1, 0, 0, 0)]"
  by (simp add: engine_defs echo_registry_def echo_tool_def validate_parameters_def)

text \<open>
  C1, amended: every invocation through the registry's \<open>execute_tool\<close> of a registered,
  enabled tool goes through the wrapper: when validation rejects the arguments the result
  is the validation failure and the tool is untouched (its body has not run); when
  validation accepts them the body runs exactly once and afterwards the execution count
  has grown by one, the cumulative time by the elapsed time, and the error count by one
  exactly when the outcome was a failure. The workflow engine's step execution invokes the
  body of a registered tool directly: the body runs once whatever the arguments, and the
  execution count, error count and cumulative time are left unchanged.
\<close>

theorem wrapper_only_through_registry:
  assumes "get_tool reg n = Some t" and "enabled t"
  shows "(validate_parameters re_match t kwargs = Inr False \<longrightarrow>
            fst (execute_tool re_match reg n kwargs t0 t1)
              = Inr \<lparr>success = False, result = VNone,
                     error = Some ''Parameter validation failed'', execution_time = t1 - t0\<rparr>
            \<and> get_tool (snd (execute_tool re_match reg n kwargs t0 t1)) n = Some t)
     \<and> (validate_parameters re_match t kwargs = Inr True \<longrightarrow>
            get_tool (snd (execute_tool re_match reg n kwargs t0 t1)) n
              = Some (t\<lparr>calls := Suc (calls t),
                        execution_count := execution_count t + 1,
                        total_execution_time := total_execution_time t + (t1 - t0),
                        error_count := error_count t
                          + (if failed (body t (calls t) kwargs) then 1 else 0)\<rparr>))
     \<and> (step_tool step = n \<longrightarrow>
            get_tool (snd (snd (execute_step clk reg step vars))) n
              = Some (t\<lparr>calls := Suc (calls t)\<rparr>))"
proof -
  have a: "validate_parameters re_match t kwargs = Inr False \<longrightarrow>
            fst (execute_tool re_match reg n kwargs t0 t1)
              = Inr \<lparr>success = False, result = VNone,
                     error = Some ''Parameter validation failed'', execution_time = t1 - t0\<rparr>
            \<and> get_tool (snd (execute_tool re_match reg n kwargs t0 t1)) n = Some t"
    using assms
    by (simp add: execute_tool_def safe_execute_def safe_execute_try_def default_result_def
        get_tool_update)
  have b: "validate_parameters re_match t kwargs = Inr True \<longrightarrow>
            get_tool (snd (execute_tool re_match reg n kwargs t0 t1)) n
              = Some (t\<lparr>calls := Suc (calls t),
                        execution_count := execution_count t + 1,
                        total_execution_time := total_execution_time t + (t1 - t0),
                        error_count := error_count t
                          + (if failed (body t (calls t) kwargs) then 1 else 0)\<rparr>)"
    using assms
    by (cases "body t (calls t) kwargs")
       (simp_all add: execute_tool_def safe_execute_def safe_execute_try_def execute_def
        failed_def get_tool_update)
  have c: "step_tool step = n \<longrightarrow>
            get_tool (snd (snd (execute_step clk reg step vars))) n
              = Some (t\<lparr>calls := Suc (calls t)\<rparr>)"
    using assms(1) execute_step_invokes [of reg step t clk vars] by auto
  from a b c show ?thesis by blast
qed

theorem wrapper_only_through_registry_witness:
  "fst (execute_tool no_patterns echo_registry ''echo'' [(''text'', VInt 5)] 0 1)
     = Inr \<lparr>success = False, result = VNone,
            error = Some ''Parameter validation failed'', execution_time = 1\<rparr>
   \<and> get_tool (snd (execute_tool no_patterns echo_registry ''echo'' [(''text'', VInt 5)] 0 1))
       ''echo'' = Some echo_tool
   \<and> get_tool (snd (execute_tool no_patterns echo_registry ''echo'' [(''text'', VStr ''hi'')] 0 1))
       ''echo''
     = Some (echo_tool\<lparr>calls := 1, execution_count := 1, total_execution_time := 1,
                       error_count := 0\<rparr>)
   \<and> get_tool (snd (snd (execute_step fixed_clock echo_registry
                          (new_step ''s1'' ''echo'' [(''text'', VInt 5)]) []))) ''echo''
     = Some (echo_tool\<lparr>calls := 1\<rparr>)"
proof -
  have vals: "calls echo_tool = 0" "execution_count echo_tool = 0"
    "total_execution_time echo_tool = 0" "error_count echo_tool = 0"
    by (simp_all add: echo_tool_def stub_tool_def)
  show ?thesis
    using wrapper_only_through_registry [OF echo_registry_eval(1,2),
        of no_patterns "[(''text'', VInt 5)]" 0 1 "new_step ''s1'' ''echo'' [(''text'', VInt 5)]"
           fixed_clock "[]"]
      wrapper_only_through_registry [OF echo_registry_eval(1,2),
        of no_patterns "[(''text'', VStr ''hi'')]" 0 1 "new_step ''s1'' ''echo'' [(''text'', VInt 5)]"
           fixed_clock "[]"]
    by (simp add: echo_registry_eval failed_def vals)
qed

section \<open>Registry dispatch: failures are results\<close>



section \<open>Execution metrics over a sequence of calls\<close>

text \<open>
  C4, as stated: after N calls to a tool's safe-execution wrapper the execution count is N
  and the error count is the number of failed calls. On the code a call whose arguments
  fail validation returns before the counters are touched: one call to the echo tool
  without its required argument fails, and leaves execution count and error count at 0.
\<close>

theorem metrics_miss_validation_failure:
  "failed (hd (fst (run_calls no_patterns echo_tool [([], 0, 1)])))
   \<and> execution_count echo_tool = 0 \<and> error_count echo_tool = 0
   \<and> execution_count (snd (run_calls no_patterns echo_tool [([], 0, 1)]))
       \<noteq> length [([], 0::real, 1::real)]
   \<and> error_count (snd (run_calls no_patterns echo_tool [([], 0, 1)])) \<noteq> 1"
  by (simp add: echo_tool_def stub_tool_def safe_execute_def safe_execute_try_def execute_def
      validate_parameters_def validate_constraints_def default_result_def failed_def)

text \<open>
  C4, amended: after any sequence of calls to a tool's safe-execution wrapper, the execution
  count has grown by the number of calls that were not short-circuited by a validation
  failure, the error count has grown by the number of those calls whose outcome was a
  failure, and, when no call's second clock reading is before its first, the cumulative
  execution time has not decreased.
\<close>

theorem metrics_count_validated_calls:
  "execution_count (snd (run_calls re_match tool cs))
     = execution_count tool + length (filter (\<lambda>c. \<not> short_circuited re_match tool c) cs)
   \<and> error_count (snd (run_calls re_match tool cs))
     = error_count tool
       + length (filter (\<lambda>(c, r). \<not> short_circuited re_match tool c \<and> failed r)
                   (zip cs (fst (run_calls re_match tool cs))))
   \<and> ((\<forall>c \<in> set cs. fst (snd c) \<le> snd (snd c)) \<longrightarrow>
        total_execution_time tool \<le> total_execution_time (snd (run_calls re_match tool cs)))"
  using run_calls_execution_count run_calls_error_count run_calls_total_time by blast

theorem metrics_count_validated_calls_witness:
  "execution_count (snd (run_calls no_patterns echo_tool
      [([(''text'', VStr ''hi'')], 1, 3), ([], 3, 4)])) = 1
   \<and> error_count (snd (run_calls no_patterns echo_tool
      [([(''text'', VStr ''hi'')], 1, 3), ([], 3, 4)])) = 0
   \<and> total_execution_time echo_tool \<le> total_execution_time (snd (run_calls no_patterns echo_tool
      [([(''text'', VStr ''hi'')], 1, 3), ([], 3, 4)]))"
  using metrics_count_validated_calls [of no_patterns echo_tool
      "[([(''text'', VStr ''hi'')], 1, 3), ([], 3, 4)]"]
  unfolding echo_calls_eval
  by (simp add: echo_calls_validation failed_def)

section \<open>The retry policy\<close>

text \<open>
  C5. The claim is that a failing step with \<open>on_failure = retry\<close> and \<open>max_retries = k\<close>
  is executed again until it succeeds or has been tried \<open>k\<close> more times. The loop
  re-executes a failed step once and then moves on: with \<open>max_retries = 2\<close> and a tool
  that always fails, the step ends failed with a retry counter of 1 and the tool's body
  has run twice (one extra attempt, not two).
\<close>

theorem retry_runs_once:
  "max_retries (hd (steps retry_workflow)) = 2
   \<and> map (\<lambda>s. (status s, retry_count s))
       (steps (fst (execute_workflow fixed_clock literal_eval flaky_registry retry_workflow None)))
     = [(FAILED, 1)]
   \<and> map (\<lambda>(n, t). (n, calls t))
       (tools (snd (execute_workflow fixed_clock literal_eval flaky_registry retry_workflow None)))
     = [(''flaky'', 2)]"
  by (simp add: engine_defs retry_workflow_def flaky_registry_def failing_tool_def)

section \<open>Step results and the variable bag\<close>

text \<open>
  C6, as stated: with the echo tool registered, the workflow whose step \<open>s1\<close> echoes
  \<open>hello\<close> and whose step \<open>s2\<close> echoes \<open>{{s1_result}}-world\<close> ends with the payload
  \<open>hello-world\<close> in \<open>s2\<close>. On the code the payload of \<open>s2\<close> is something else.
\<close>

theorem echo_workflow_payload_not_hello_world:
  "map_option result (step_result (last (steps (fst
      (execute_workflow fixed_clock literal_eval echo_registry hello_world_workflow None)))))
   \<noteq> Some (VStr ''hello-world'')"
  by (simp add: engine_defs hello_world_workflow_def echo_registry_def echo_tool_def)

text \<open>
  C6, amended: the same workflow ends with status completed, but the payload of \<open>s2\<close> is
  the text \<open>{{s1_result}}-world\<close> with the placeholder left in place, and the variable bag
  stays empty: the payload of a successful step is stored in the variable bag under
  \<open><step.id>_result\<close> exactly when it is a non-empty dict, and the bare string that
  echo returns is not.
\<close>

theorem echo_workflow_keeps_placeholder:
  "wf_status (fst (execute_workflow fixed_clock literal_eval echo_registry hello_world_workflow None))
     = WF_COMPLETED
   \<and> map (\<lambda>s. map_option result (step_result s))
       (steps (fst (execute_workflow fixed_clock literal_eval echo_registry hello_world_workflow None)))
     = [Some (VStr ''hello''), Some (VStr ''{{s1_result}}-world'')]
   \<and> variables (fst (execute_workflow fixed_clock literal_eval echo_registry hello_world_workflow None))
     = []
   \<and> (\<forall>clk reg step vars t res.
        map_of (tools reg) (step_tool step) = Some t \<and>
        body t (calls t) (map (\<lambda>(k, v). (k, substitute_variables clk vars v)) (parameters step))
          = Inr res \<and> success res \<longrightarrow>
        fst (snd (execute_step clk reg step vars))
          = (if py_truthy (result res) \<and> is_dict (result res)
             then AList.update (step_id step @ ''_result'') (result res) vars else vars))"
proof -
  have gen: "\<forall>clk reg step vars t res.
        map_of (tools reg) (step_tool step) = Some t \<and>
        body t (calls t) (map (\<lambda>(k, v). (k, substitute_variables clk vars v)) (parameters step))
          = Inr res \<and> success res \<longrightarrow>
        fst (snd (execute_step clk reg step vars))
          = (if py_truthy (result res) \<and> is_dict (result res)
             then AList.update (step_id step @ ''_result'') (result res) vars else vars)"
    by (simp add: execute_step_def execute_def Let_def)
  show ?thesis
    using gen by (simp add: engine_defs hello_world_workflow_def echo_registry_def echo_tool_def)
qed

theorem echo_workflow_keeps_placeholder_witness:
  "fst (snd (execute_step fixed_clock (register_tool empty_registry dict_tool)
               (new_step ''a'' ''answer'' []) []))
     = [(''a_result'', VDict [(''x'', VInt 42)])]"
proof -
  have inst: "map_of (tools (register_tool empty_registry dict_tool)) (step_tool (new_step ''a'' ''answer'' []))
      = Some dict_tool
    \<and> body dict_tool (calls dict_tool)
        (map (\<lambda>(k, v). (k, substitute_variables fixed_clock [] v)) (parameters (new_step ''a'' ''answer'' [])))
      = Inr \<lparr>success = True, result = VDict [(''x'', VInt 42)], error = None, execution_time = 0\<rparr>
    \<and> success \<lparr>success = True, result = VDict [(''x'', VInt 42)], error = None, execution_time = 0\<rparr>"
    by (simp add: register_tool_def empty_registry_def dict_tool_def stub_tool_def new_step_def Let_def)
  from echo_workflow_keeps_placeholder inst
  have "fst (snd (execute_step fixed_clock (register_tool empty_registry dict_tool)
               (new_step ''a'' ''answer'' []) []))
     = (if py_truthy (result \<lparr>success = True, result = VDict [(''x'', VInt 42)], error = None, execution_time = 0\<rparr>)
           \<and> is_dict (result \<lparr>success = True, result = VDict [(''x'', VInt 42)], error = None, execution_time = 0\<rparr>)
        then AList.update (step_id (new_step ''a'' ''answer'' []) @ ''_result'')
               (result \<lparr>success = True, result = VDict [(''x'', VInt 42)], error = None, execution_time = 0\<rparr>) []
        else [])"
    by blast
  then show ?thesis by (simp add: new_step_def)
qed

section \<open>Conditions\<close>



section \<open>The retry policy of the request loop\<close>

text \<open>
  C7, as stated: besides rate-limit responses and network-level failures, the other HTTP
  error statuses are retried with exponential backoff. On the code a status such as 500
  goes to \<open>raise_for_status\<close>, whose exception the loop's handler for network-level
  failures does not catch: with a retry ceiling of 3 the request is sent once, nothing is
  slept, and the status error leaves the function.
\<close>

theorem server_error_not_retried:
  "make_request 3 1 ''POST'' False (\<lambda>n. status_only 500) = (Inl (HTTPStatusError ''500''), [], 1)"
  by (simp add: make_request_def attempt_loop.simps [of _ _ _ _ _ 0] try_attempt_def upper_eval
      sends_request_def handle_response_def status_only_def raise_for_status_def
      str_of_nat.simps [of 500] str_of_nat.simps [of 50] str_of_nat.simps [of 5] digit_char_def)

text \<open>
  C7, amended: in a request that is sent (\<open>GET\<close>, or \<open>POST\<close> without streaming), let
  the attempts \<open>0, ..., k - 1\<close> meet rate-limit responses (429) or network-level failures,
  with \<open>k\<close> within the retry ceiling. Then each of them was followed by a sleep of
  \<open>base_delay * 2^n\<close> after attempt \<open>n\<close>, and attempt \<open>k\<close> ends the request as follows:
  a 401 or a 404 response is not retried and surfaces at once as the authentication error
  or the model-not-found error; a 429 response at the ceiling surfaces as the rate-limit
  error and a network-level failure at the ceiling as the generic request-failed error;
  any other status outside 2xx is not retried either: its status error surfaces at once.
\<close>

theorem retry_policy:
  assumes "sends_request method stream" and "\<forall>i < k. transient (srv i)"
    and "int k \<le> retry_limit"
  shows "(\<forall>js. srv k = Response 401 js \<longrightarrow>
            make_request retry_limit base_delay method stream srv
              = (Inl (AuthenticationError ''Invalid API key''), backoff_delays base_delay k, Suc k))
    \<and> (\<forall>js. srv k = Response 404 js \<longrightarrow>
            make_request retry_limit base_delay method stream srv
              = (Inl (ModelNotFoundError ''Model not found or not available''),
                 backoff_delays base_delay k, Suc k))
    \<and> (\<forall>js. srv k = Response 429 js \<and> int k = retry_limit \<longrightarrow>
            make_request retry_limit base_delay method stream srv
              = (Inl (RateLimitError ''Rate limit exceeded''), backoff_delays base_delay k, Suc k))
    \<and> (\<forall>msg. srv k = NetworkFailure msg \<and> int k = retry_limit \<longrightarrow>
            make_request retry_limit base_delay method stream srv
              = (Inl (OpenRouterError (''Request failed: '' @ msg)),
                 backoff_delays base_delay k, Suc k))
    \<and> (\<forall>code js. srv k = Response code js \<and> code \<notin> {200, 401, 404, 429}
                   \<and> \<not> (200 \<le> code \<and> code < 300) \<longrightarrow>
            make_request retry_limit base_delay method stream srv
              = (Inl (HTTPStatusError (str_of_nat code)), backoff_delays base_delay k, Suc k))"
proof -
  note fin = make_request_after_backoff [OF assms]
  have a: "make_request retry_limit base_delay method stream srv
              = (Inl (AuthenticationError ''Invalid API key''), backoff_delays base_delay k, Suc k)"
    if "srv k = Response 401 js" for js
    by (rule fin) (simp add: handle_response_def that)
  have b: "make_request retry_limit base_delay method stream srv
              = (Inl (ModelNotFoundError ''Model not found or not available''),
                 backoff_delays base_delay k, Suc k)"
    if "srv k = Response 404 js" for js
    by (rule fin) (simp add: handle_response_def that)
  have c: "make_request retry_limit base_delay method stream srv
              = (Inl (RateLimitError ''Rate limit exceeded''), backoff_delays base_delay k, Suc k)"
    if "srv k = Response 429 js" and "int k = retry_limit" for js
    by (rule fin) (simp add: handle_response_def that)
  have d: "make_request retry_limit base_delay method stream srv
              = (Inl (OpenRouterError (''Request failed: '' @ msg)),
                 backoff_delays base_delay k, Suc k)"
    if "srv k = NetworkFailure msg" and "int k = retry_limit" for msg
    by (rule fin) (simp add: handle_response_def that)
  have e: "make_request retry_limit base_delay method stream srv
              = (Inl (HTTPStatusError (str_of_nat code)), backoff_delays base_delay k, Suc k)"
    if "srv k = Response code js" and "code \<notin> {200, 401, 404, 429}"
      and "\<not> (200 \<le> code \<and> code < 300)" for code js
    using that(2,3) by (intro fin) (simp add: handle_response_def raise_for_status_def that(1))
  from a b c d e show ?thesis by blast
qed


theorem retry_policy_witness:
  "make_request 3 1 ''POST'' False
      (scripted [status_only 429, NetworkFailure ''timed out'', status_only 401])
     = (Inl (AuthenticationError ''Invalid API key''), [1, 2], 3)
   \<and> make_request 2 1 ''POST'' False (\<lambda>n. status_only 429)
     = (Inl (RateLimitError ''Rate limit exceeded''), [1, 2], 3)"
proof -
  have t1: "\<forall>i < 2. transient (scripted [status_only 429, NetworkFailure ''timed out'', status_only 401] i)"
    by (simp add: scripted_def transient_def status_only_def less_Suc_eq numeral_2_eq_2)
  have t2: "\<forall>i < 2. transient (status_only 429)"
    by (simp add: transient_def status_only_def)
  have d: "backoff_delays 1 2 = [1, 2]"
    by (simp add: backoff_delays_def numeral_2_eq_2)
  have r1: "make_request 3 1 ''POST'' False
      (scripted [status_only 429, NetworkFailure ''timed out'', status_only 401])
     = (Inl (AuthenticationError ''Invalid API key''), backoff_delays 1 2, Suc 2)"
  proof -
    have s2: "scripted [status_only 429, NetworkFailure ''timed out'', status_only 401] 2
        = Response 401 (Inr (VDict []))"
      by (simp add: scripted_def status_only_def)
    show ?thesis
      using retry_policy [OF sends_post t1, of 3 1] s2 by simp
  qed
  have r2: "make_request 2 1 ''POST'' False (\<lambda>n. status_only 429)
     = (Inl (RateLimitError ''Rate limit exceeded''), backoff_delays 1 2, Suc 2)"
    using retry_policy [OF sends_post t2, of 2 1]
    by (simp add: status_only_def)
  show ?thesis
    using r1 r2 by (simp add: d)
qed

section \<open>The emulation parser on a well-formed document of the wrong shape\<close>

text \<open>
  C8. The claim is that the tool-call parser never raises, whatever the text, and degrades
  to an empty list of tool calls. For the response \<open>{"tool_calls": 5}\<close> the pattern
  matches and the document decodes, but iterating over the number 5 raises \<open>TypeError\<close>,
  which is not among the exceptions the parser catches: the parser raises, and so does the
  completion that called it, instead of answering with the text as content.
\<close>

theorem non_list_tool_calls_raise:
  \<open>parse_tool_calls ''{"tool_calls": 5}'' = Inl (TypeError '''int' object is not iterable'')
   \<and> tool_calling_message ''{"tool_calls": 5}''
     = Inl (PyException ''Ollama tool calling failed: 'int' object is not iterable'')\<close>
  by code_simp

section \<open>Registry: the category index after a replacement\<close>

text \<open>
  C9. The claim is that the registry invariant holds after any sequence of register and
  unregister operations, also when a name is registered again under another category.
  On the code it does not: \<open>register_tool\<close> leaves the replaced tool's name in the list
  of its old category, and \<open>unregister_tool\<close> removes the name only from the list of the
  current tool's category. After registering \<open>t\<close> as a file tool, registering \<open>t\<close> again
  as a web tool and unregistering \<open>t\<close>, the primary map is empty while the category index
  still lists \<open>t\<close> under the file category.
\<close>

theorem registry_stale_category_entry:
  "apply_ops empty_registry
     [Register (stub_tool ''t'' FILE_OPERATIONS), Register (stub_tool ''t'' WEB_TOOLS),
      Unregister ''t'']
   = \<lparr>tools = [], categories = [(FILE_OPERATIONS, [''t'']), (WEB_TOOLS, [])]\<rparr>
   \<and> \<not> registry_invariant
         (apply_ops empty_registry
            [Register (stub_tool ''t'' FILE_OPERATIONS), Register (stub_tool ''t'' WEB_TOOLS),
             Unregister ''t''])"
  by (simp add: empty_registry_def register_tool_def unregister_tool_def stub_tool_def
      registry_invariant_def index_in_tools_def tools_in_index_def indexed_names_def
      AList.delete_eq Let_def)

end
